theory Spec2Isabelle
  imports Main "HOL-Library.Word"
begin

section \<open>JavaScript strings and the two built-ins the handler calls\<close>

text \<open>
  A JavaScript string is a sequence of UTF-16 code units. The string literals of
  \<^verbatim>\<open>App.tsx\<close> are ASCII, so they are written as HOL strings and injected with \<open>js\<close>.
\<close>

type_synonym jsstring = "16 word list"

definition js :: "string \<Rightarrow> jsstring" where
  "js s = map (\<lambda>c. of_nat (of_char c)) s"

text \<open>
  \<^verbatim>\<open>String.prototype.trim\<close> removes the ECMAScript WhiteSpace and LineTerminator code
  points from both ends; all of them lie in the basic plane, so they are single code units.
\<close>

definition isWhiteSpace :: "16 word \<Rightarrow> bool" where
  "isWhiteSpace c = (c \<in> set [0x9, 0xA, 0xB, 0xC, 0xD, 0x20, 0xA0, 0x1680,
      0x2000, 0x2001, 0x2002, 0x2003, 0x2004, 0x2005, 0x2006, 0x2007, 0x2008, 0x2009, 0x200A,
      0x2028, 0x2029, 0x202F, 0x205F, 0x3000, 0xFEFF])"

definition trim :: "jsstring \<Rightarrow> jsstring" where
  "trim s = rev (dropWhile isWhiteSpace (rev (dropWhile isWhiteSpace s)))"

text \<open>
  \<^verbatim>\<open>encodeURIComponent\<close> keeps letters, digits and \<^verbatim>\<open>- _ . ! ~ * ' ( )\<close>, and writes every
  other code point as the octets of its UTF-8 form, each as \<^verbatim>\<open>%XX\<close> in upper-case
  hexadecimal. A surrogate code unit that is not part of a pair makes it throw a
  \<^verbatim>\<open>URIError\<close>: that is the value \<open>None\<close>.
\<close>

definition unreserved :: "16 word \<Rightarrow> bool" where
  "unreserved c =
     ((0x41 \<le> c \<and> c \<le> 0x5A) \<or> (0x61 \<le> c \<and> c \<le> 0x7A) \<or> (0x30 \<le> c \<and> c \<le> 0x39)
      \<or> c \<in> set (js ''-_.!~*'()''))"

definition hexDigit :: "nat \<Rightarrow> 16 word" where
  "hexDigit n = js ''0123456789ABCDEF'' ! (n mod 16)"

definition percent :: "nat \<Rightarrow> jsstring" where
  "percent octet = js ''%'' @ [hexDigit (octet div 16), hexDigit (octet mod 16)]"

definition utf8 :: "nat \<Rightarrow> nat list" where
  "utf8 cp =
     (if cp < 0x80 then [cp]
      else if cp < 0x800 then [0xC0 + cp div 0x40, 0x80 + cp mod 0x40]
      else if cp < 0x10000 then
        [0xE0 + cp div 0x1000, 0x80 + (cp div 0x40) mod 0x40, 0x80 + cp mod 0x40]
      else
        [0xF0 + cp div 0x40000, 0x80 + (cp div 0x1000) mod 0x40,
         0x80 + (cp div 0x40) mod 0x40, 0x80 + cp mod 0x40])"

definition isLead :: "16 word \<Rightarrow> bool" where
  "isLead c = (0xD800 \<le> c \<and> c \<le> 0xDBFF)"

definition isTrail :: "16 word \<Rightarrow> bool" where
  "isTrail c = (0xDC00 \<le> c \<and> c \<le> 0xDFFF)"

definition escape :: "nat \<Rightarrow> jsstring" where
  "escape cp = concat (map percent (utf8 cp))"

fun encodeURIComponent :: "jsstring \<Rightarrow> jsstring option" where
  "encodeURIComponent [] = Some []"
| "encodeURIComponent (c # cs) =
    (if unreserved c then map_option ((#) c) (encodeURIComponent cs)
     else if isTrail c then None
     else if isLead c then
       (case cs of
          [] \<Rightarrow> None
        | d # ds \<Rightarrow>
            if isTrail d
            then map_option
                   ((@) (escape ((unat c - 0xD800) * 0x400 + (unat d - 0xDC00) + 0x10000)))
                   (encodeURIComponent ds)
            else None)
     else map_option ((@) (escape (unat c))) (encodeURIComponent cs))"

section \<open>The data of \<^verbatim>\<open>App.tsx\<close>\<close>

definition API_ENDPOINT :: jsstring where
  "API_ENDPOINT = js ''https://www.tikwm.com/api/''"

datatype DownloadState = Idle | Loading | Success | Error

text \<open>
  \<^verbatim>\<open>TikTokResponse\<close>, at its declared type. \<open>data\<close> is optional in the declaration;
  \<open>msg\<close> is read with \<^verbatim>\<open>payload.msg || ...\<close>, which also covers a body without it, so it
  is optional here too. \<open>code\<close> is only compared with zero.
\<close>

record author_t =
  nickname :: jsstring

record video_data =
  play :: jsstring
  title :: jsstring
  author :: author_t
  cover :: jsstring

record TikTokResponse =
  code :: int
  msg :: "jsstring option"
  data :: "video_data option"

text \<open>The four \<^verbatim>\<open>useState\<close> cells of the component.\<close>

record app_state =
  url :: jsstring
  status :: DownloadState
  error :: "jsstring option"
  videoData :: "video_data option"

definition initial :: app_state where
  "initial = \<lparr>url = [], status = Idle, error = None, videoData = None\<rparr>"

definition setUrl :: "jsstring \<Rightarrow> app_state \<Rightarrow> app_state" where
  "setUrl v s = s\<lparr>url := v\<rparr>"

definition setStatus :: "DownloadState \<Rightarrow> app_state \<Rightarrow> app_state" where
  "setStatus v s = s\<lparr>status := v\<rparr>"

definition setError :: "jsstring option \<Rightarrow> app_state \<Rightarrow> app_state" where
  "setError v s = s\<lparr>error := v\<rparr>"

definition setVideoData :: "video_data option \<Rightarrow> app_state \<Rightarrow> app_state" where
  "setVideoData v s = s\<lparr>videoData := v\<rparr>"

section \<open>The platform: thrown values, promises, \<^verbatim>\<open>fetch\<close>\<close>

text \<open>
  JavaScript can throw any value; the handler only asks whether the value is an
  \<^verbatim>\<open>Error\<close> and, if so, reads its message. An awaited promise is rejected, fulfilled,
  or never settles (the handler sets no timeout).
\<close>

datatype thrown = ErrorObject (message: jsstring) | OtherValue

datatype 'a promise = Pending | Rejected thrown | Resolved 'a

record response =
  ok :: bool
  json :: "TikTokResponse promise"

text \<open>
  What the handler's surroundings decide: the outcome of \<^verbatim>\<open>fetch\<close> for a URL, and the
  message the engine puts into a \<^verbatim>\<open>URIError\<close>.
\<close>

record platform =
  fetch :: "jsstring \<Rightarrow> response promise"
  uriErrorMessage :: jsstring

text \<open>\<^verbatim>\<open>fetch\<close> called with a URL alone issues a GET request.\<close>

record request =
  http_method :: string
  target :: jsstring

section \<open>\<^verbatim>\<open>handleDownload\<close>\<close>

text \<open>
  The handler's effects, in program order: state updates, calls of \<^verbatim>\<open>fetch\<close>, and calls
  of \<^verbatim>\<open>console.error\<close>. An update made before the first \<^verbatim>\<open>await\<close> runs inside the
  submit event; a later one runs when the awaited promise has settled. The handler reads
  \<open>url\<close> from the render it was created in, that is, from the state at submission;
  \<^verbatim>\<open>event.preventDefault()\<close> touches none of the four cells and is left out.
\<close>

datatype cause = Submission | NetworkOutcome

datatype effect = Update cause app_state | Fetch request | ConsoleError thrown

text \<open>\<^verbatim>\<open>payload.msg || fallback\<close>: an absent or empty message is falsy.\<close>

definition or_else :: "jsstring option \<Rightarrow> jsstring \<Rightarrow> jsstring" where
  "or_else m fallback = (case m of None \<Rightarrow> fallback | Some t \<Rightarrow> if t = [] then fallback else t)"

text \<open>\<^verbatim>\<open>!payload.data?.play\<close>: no \<open>data\<close>, or an empty \<open>play\<close>.\<close>

definition no_play :: "TikTokResponse \<Rightarrow> bool" where
  "no_play payload = (case data payload of None \<Rightarrow> True | Some d \<Rightarrow> play d = [])"

text \<open>
  The body of the \<^verbatim>\<open>try\<close> block up to the two final setters: the URLs given to
  \<^verbatim>\<open>fetch\<close>, whether an \<^verbatim>\<open>await\<close> was passed, and how the block ends: it hangs on a
  promise, throws, or reaches the setters with a payload.
\<close>

record attempt =
  issued :: "jsstring list"
  awaited :: bool
  completion :: "TikTokResponse promise"

definition try_body :: "platform \<Rightarrow> jsstring \<Rightarrow> attempt" where
  "try_body env u =
     (case encodeURIComponent (trim u) of
        None \<Rightarrow>
          \<lparr>issued = [], awaited = False,
           completion = Rejected (ErrorObject (uriErrorMessage env))\<rparr>
      | Some enc \<Rightarrow>
          let t = API_ENDPOINT @ js ''?url='' @ enc in
          \<lparr>issued = [t], awaited = True,
           completion =
             (case fetch env t of
                Pending \<Rightarrow> Pending
              | Rejected e \<Rightarrow> Rejected e
              | Resolved response \<Rightarrow>
                  if \<not> ok response then
                    Rejected (ErrorObject
                      (js ''Failed to contact the download service. Please try again.''))
                  else
                    (case json response of
                       Pending \<Rightarrow> Pending
                     | Rejected e \<Rightarrow> Rejected e
                     | Resolved payload \<Rightarrow>
                         if code payload \<noteq> 0 \<or> no_play payload then
                           Rejected (ErrorObject
                             (or_else (msg payload)
                                (js ''Unable to fetch the video. Make sure the link is public.'')))
                         else Resolved payload))\<rparr>)"

text \<open>\<^verbatim>\<open>err instanceof Error ? err.message : "Unexpected error. Please try again later."\<close>\<close>

definition displayMessage :: "thrown \<Rightarrow> jsstring" where
  "displayMessage err =
     (case err of
        ErrorObject m \<Rightarrow> m
      | OtherValue \<Rightarrow> js ''Unexpected error. Please try again later.'')"

definition handleDownload :: "platform \<Rightarrow> app_state \<Rightarrow> effect list" where
  "handleDownload env s0 =
     (if trim (url s0) = [] then
        let s1 = setError (Some (js ''Please paste a TikTok link.'')) s0;
            s2 = setStatus Error s1
        in [Update Submission s1, Update Submission s2]
      else
        let s1 = setStatus Loading s0;
            s2 = setError None s1;
            s3 = setVideoData None s2;
            a = try_body env (url s0);
            c = (if awaited a then NetworkOutcome else Submission)
        in [Update Submission s1, Update Submission s2, Update Submission s3]
           @ map (\<lambda>t. Fetch \<lparr>http_method = ''GET'', target = t\<rparr>) (issued a)
           @ (case completion a of
                Pending \<Rightarrow> []
              | Resolved payload \<Rightarrow>
                  let s4 = setVideoData (data payload) s3;
                      s5 = setStatus Success s4
                  in [Update c s4, Update c s5]
              | Rejected err \<Rightarrow>
                  let s4 = setError (Some (displayMessage err)) s3;
                      s5 = setStatus Error s4
                  in [ConsoleError err, Update c s4, Update c s5]))"

text \<open>Reading a log: the states it passes through, the requests, the last state.\<close>

fun states :: "effect list \<Rightarrow> app_state list" where
  "states [] = []"
| "states (Update c s # es) = s # states es"
| "states (Fetch r # es) = states es"
| "states (ConsoleError e # es) = states es"

fun requests :: "effect list \<Rightarrow> request list" where
  "requests [] = []"
| "requests (Fetch r # es) = r # requests es"
| "requests (Update c s # es) = requests es"
| "requests (ConsoleError e # es) = requests es"

definition final :: "app_state \<Rightarrow> effect list \<Rightarrow> app_state" where
  "final s0 log = last (s0 # states log)"

text \<open>The status changes of a log, each with the cause of the update that made it.\<close>

fun transitions :: "DownloadState \<Rightarrow> effect list \<Rightarrow> (cause \<times> DownloadState \<times> DownloadState) list" where
  "transitions st [] = []"
| "transitions st (Update c s # es) = (c, st, status s) # transitions (status s) es"
| "transitions st (Fetch r # es) = transitions st es"
| "transitions st (ConsoleError e # es) = transitions st es"

section \<open>What the component renders\<close>

definition isLoading :: "app_state \<Rightarrow> bool" where
  "isLoading s = (status s = Loading)"

text \<open>\<^verbatim>\<open>status === "error" && error && <div role="alert">{error}</div>\<close>\<close>

definition errorBanner :: "app_state \<Rightarrow> jsstring option" where
  "errorBanner s =
     (if status s = Error then
        (case error s of None \<Rightarrow> None | Some m \<Rightarrow> if m = [] then None else Some m)
      else None)"

text \<open>
  The result panel of \<^verbatim>\<open>status === "success" && videoData\<close>: the cover image, the
  title, the author line and the download link.
\<close>

record panel =
  coverImageUrl :: jsstring
  heading :: jsstring
  authorHandle :: jsstring
  playUrl :: jsstring

definition resultPanel :: "app_state \<Rightarrow> panel option" where
  "resultPanel s =
     (if status s = Success then
        (case videoData s of
           None \<Rightarrow> None
         | Some d \<Rightarrow>
             Some \<lparr>coverImageUrl = cover d, heading = title d,
                   authorHandle = nickname (author d), playUrl = play d\<rparr>)
      else None)"

section \<open>The component as a state machine\<close>

text \<open>
  The user types into the input (\<^verbatim>\<open>onChange\<close>) or submits the form. Both controls carry
  \<^verbatim>\<open>disabled={isLoading}\<close>, so neither event reaches the component while a request is
  outstanding. Each submission meets its own platform behaviour.
\<close>

datatype ui_event = Change jsstring | Submit platform

fun ui_step :: "ui_event \<Rightarrow> app_state \<Rightarrow> app_state list" where
  "ui_step (Change v) s = (if isLoading s then [] else [setUrl v s])"
| "ui_step (Submit env) s = (if isLoading s then [] else states (handleDownload env s))"

fun visited :: "app_state \<Rightarrow> ui_event list \<Rightarrow> app_state list" where
  "visited s [] = [s]"
| "visited s (e # es) =
     butlast (s # ui_step e s) @ visited (last (s # ui_step e s)) es"

text \<open>
  The handler hands the message of a caught \<^verbatim>\<open>Error\<close> on as it is. A platform
  \<open>names_its_errors\<close> when the errors it raises itself (the \<^verbatim>\<open>URIError\<close>, a rejected
  \<^verbatim>\<open>fetch\<close>, a rejected \<^verbatim>\<open>response.json()\<close>) carry a non-empty message.
\<close>

definition names_its_errors :: "platform \<Rightarrow> bool" where
  "names_its_errors env =
     (uriErrorMessage env \<noteq> [] \<and>
      (\<forall>u. case fetch env u of
             Pending \<Rightarrow> True
           | Rejected e \<Rightarrow> e \<noteq> ErrorObject []
           | Resolved r \<Rightarrow> json r \<noteq> Rejected (ErrorObject [])))"

fun polite :: "ui_event \<Rightarrow> bool" where
  "polite (Change v) = True"
| "polite (Submit env) = names_its_errors env"

text \<open>A submission has ended in the error state, with message \<open>m\<close> and the form enabled.\<close>

definition ends_in_error :: "app_state \<Rightarrow> jsstring \<Rightarrow> bool" where
  "ends_in_error s m = (status s = Error \<and> error s = Some m \<and> \<not> isLoading s)"

text \<open>
  Two invariants of the state: the error state has a message and the success state has a
  record whose \<open>play\<close> is not empty (\<open>coherent\<close>); the message of the error state is not
  empty (\<open>voiced\<close>).
\<close>

definition coherent :: "app_state \<Rightarrow> bool" where
  "coherent s =
     ((status s = Error \<longrightarrow> error s \<noteq> None) \<and>
      (status s = Success \<longrightarrow> (case videoData s of None \<Rightarrow> False | Some d \<Rightarrow> play d \<noteq> [])))"

definition voiced :: "app_state \<Rightarrow> bool" where
  "voiced s = (status s = Error \<longrightarrow> (case error s of None \<Rightarrow> False | Some m \<Rightarrow> m \<noteq> []))"

section \<open>Concrete platforms and inputs\<close>

text \<open>A platform whose \<^verbatim>\<open>fetch\<close> has the same outcome for every URL.\<close>

definition platform_with :: "response promise \<Rightarrow> platform" where
  "platform_with out = \<lparr>fetch = (\<lambda>u. out), uriErrorMessage = js ''URI malformed''\<rparr>"

definition answering :: "TikTokResponse \<Rightarrow> platform" where
  "answering payload = platform_with (Resolved \<lparr>ok = True, json = Resolved payload\<rparr>)"

definition typed :: "jsstring \<Rightarrow> app_state" where
  "typed v = setUrl v initial"

definition video_link :: jsstring where
  "video_link = js ''https://www.tiktok.com/@user/video/1''"

definition video_link_encoded :: jsstring where
  "video_link_encoded = js ''https%3A%2F%2Fwww.tiktok.com%2F%40user%2Fvideo%2F1''"

definition found_data :: video_data where
  "found_data =
     \<lparr>play = js ''https://cdn/x.mp4'', title = js ''T'',
      author = \<lparr>nickname = js ''user''\<rparr>, cover = js ''https://cdn/c.jpg''\<rparr>"

definition found :: TikTokResponse where
  "found = \<lparr>code = 0, msg = Some (js ''success''), data = Some found_data\<rparr>"

definition not_found :: TikTokResponse where
  "not_found = \<lparr>code = 1, msg = Some (js ''Video not found''), data = None\<rparr>"

definition failed_to_fetch :: thrown where
  "failed_to_fetch = ErrorObject (js ''Failed to fetch'')"

text \<open>States left by earlier submissions, and further platforms.\<close>

definition shown :: app_state where
  "shown = \<lparr>url = js ''   '', status = Success, error = None, videoData = Some found_data\<rparr>"

definition stale :: app_state where
  "stale = \<lparr>url = video_link, status = Error,
            error = Some (js ''Please paste a TikTok link.''), videoData = Some found_data\<rparr>"

definition bad_gateway :: response where
  "bad_gateway = \<lparr>ok = False, json = Resolved found\<rparr>"

definition nameless_rejection :: platform where
  "nameless_rejection = platform_with (Rejected (ErrorObject []))"

definition unparsable :: response where
  "unparsable = \<lparr>ok = True, json = Rejected (ErrorObject (js ''Unexpected end of JSON input''))\<rparr>"

definition unreadable :: response where
  "unreadable = \<lparr>ok = True, json = Rejected OtherValue\<rparr>"

definition no_data :: TikTokResponse where
  "no_data = \<lparr>code = 0, msg = None, data = None\<rparr>"

section \<open>Helper lemmas\<close>

subsection \<open>Strings\<close>

lemma js_eq_iff: "(js a = js b) = (a = b)"
proof -
  have inj: "inj (\<lambda>c::char. (of_nat (of_char c) :: 16 word))"
  proof (rule injI)
    fix c d :: char
    assume "(of_nat (of_char c) :: 16 word) = of_nat (of_char d)"
    then have "take_bit 16 (of_char c :: nat) = take_bit 16 (of_char d :: nat)"
      by (simp add: word_of_nat_eq_iff)
    moreover have small: "(of_char e :: nat) < 2 ^ 16" for e :: char
    proof -
      have "(of_char e :: nat) mod 256 < 256" by (rule mod_less_divisor) simp
      then have "(of_char e :: nat) < 256" by (simp only: of_char_mod_256)
      then show ?thesis by (rule less_trans) simp
    qed
    ultimately have "(of_char c :: nat) = of_char d"
      by (simp add: take_bit_nat_eq_self small)
    then show "c = d" by simp
  qed
  show ?thesis unfolding js_def by (simp add: inj_map_eq_map [OF inj])
qed

lemma js_Nil_iff: "(js a = []) = (a = [])"
  by (simp add: js_def)

lemma trim_empty_iff: "(trim u = []) = list_all isWhiteSpace u"
proof
  assume "trim u = []"
  then have d: "dropWhile isWhiteSpace (rev (dropWhile isWhiteSpace u)) = []"
    by (simp add: trim_def)
  show "list_all isWhiteSpace u"
  proof (cases "dropWhile isWhiteSpace u")
    case Nil
    then show ?thesis by (simp add: list_all_iff)
  next
    case (Cons x xs)
    then have "\<not> isWhiteSpace x" using hd_dropWhile [of isWhiteSpace u] by auto
    moreover have "isWhiteSpace x" using d Cons by simp
    ultimately show ?thesis by simp
  qed
next
  assume "list_all isWhiteSpace u"
  then show "trim u = []"
    by (auto simp add: trim_def list_all_iff dest: set_dropWhileD)
qed

subsection \<open>The handler, path by path\<close>

lemma handleDownload_blank:
  "trim (url s0) = [] \<Longrightarrow>
   handleDownload env s0 =
     [Update Submission (s0\<lparr>error := Some (js ''Please paste a TikTok link.'')\<rparr>),
      Update Submission (s0\<lparr>error := Some (js ''Please paste a TikTok link.''), status := Error\<rparr>)]"
  by (simp add: handleDownload_def setError_def setStatus_def Let_def)

lemma handleDownload_resolved:
  "trim (url s0) \<noteq> [] \<Longrightarrow> completion (try_body env (url s0)) = Resolved p \<Longrightarrow>
   handleDownload env s0 =
     [Update Submission (s0\<lparr>status := Loading\<rparr>),
      Update Submission (s0\<lparr>status := Loading, error := None\<rparr>),
      Update Submission (s0\<lparr>status := Loading, error := None, videoData := None\<rparr>)]
     @ map (\<lambda>t. Fetch \<lparr>http_method = ''GET'', target = t\<rparr>) (issued (try_body env (url s0)))
     @ [Update (if awaited (try_body env (url s0)) then NetworkOutcome else Submission)
          (s0\<lparr>status := Loading, error := None, videoData := data p\<rparr>),
        Update (if awaited (try_body env (url s0)) then NetworkOutcome else Submission)
          (s0\<lparr>status := Success, error := None, videoData := data p\<rparr>)]"
  by (simp add: handleDownload_def setError_def setStatus_def setVideoData_def Let_def)

lemma handleDownload_rejected:
  "trim (url s0) \<noteq> [] \<Longrightarrow> completion (try_body env (url s0)) = Rejected e \<Longrightarrow>
   handleDownload env s0 =
     [Update Submission (s0\<lparr>status := Loading\<rparr>),
      Update Submission (s0\<lparr>status := Loading, error := None\<rparr>),
      Update Submission (s0\<lparr>status := Loading, error := None, videoData := None\<rparr>)]
     @ map (\<lambda>t. Fetch \<lparr>http_method = ''GET'', target = t\<rparr>) (issued (try_body env (url s0)))
     @ [ConsoleError e,
        Update (if awaited (try_body env (url s0)) then NetworkOutcome else Submission)
          (s0\<lparr>status := Loading, error := Some (displayMessage e), videoData := None\<rparr>),
        Update (if awaited (try_body env (url s0)) then NetworkOutcome else Submission)
          (s0\<lparr>status := Error, error := Some (displayMessage e), videoData := None\<rparr>)]"
  by (simp add: handleDownload_def setError_def setStatus_def setVideoData_def Let_def)

lemma handleDownload_pending:
  "trim (url s0) \<noteq> [] \<Longrightarrow> completion (try_body env (url s0)) = Pending \<Longrightarrow>
   handleDownload env s0 =
     [Update Submission (s0\<lparr>status := Loading\<rparr>),
      Update Submission (s0\<lparr>status := Loading, error := None\<rparr>),
      Update Submission (s0\<lparr>status := Loading, error := None, videoData := None\<rparr>)]
     @ map (\<lambda>t. Fetch \<lparr>http_method = ''GET'', target = t\<rparr>) (issued (try_body env (url s0)))"
  by (simp add: handleDownload_def setError_def setStatus_def setVideoData_def Let_def)

lemma states_append: "states (xs @ ys) = states xs @ states ys"
  by (induction xs rule: states.induct) simp_all

lemma requests_append: "requests (xs @ ys) = requests xs @ requests ys"
  by (induction xs rule: requests.induct) simp_all

lemma states_map_Fetch: "states (map (\<lambda>t. Fetch (f t)) ts) = []"
  by (induction ts) simp_all

lemma requests_map_Fetch: "requests (map (\<lambda>t. Fetch (f t)) ts) = map f ts"
  by (induction ts) simp_all

lemma try_body_encoded:
  "encodeURIComponent (trim u) = Some enc \<Longrightarrow>
   issued (try_body env u) = [API_ENDPOINT @ js ''?url='' @ enc] \<and> awaited (try_body env u)"
  by (simp add: try_body_def Let_def)

lemma try_body_unencodable:
  "encodeURIComponent (trim u) = None \<Longrightarrow>
   issued (try_body env u) = [] \<and> \<not> awaited (try_body env u)
   \<and> completion (try_body env u) = Rejected (ErrorObject (uriErrorMessage env))"
  by (simp add: try_body_def)

lemma try_body_payload:
  "encodeURIComponent (trim u) = Some enc \<Longrightarrow>
   fetch env (API_ENDPOINT @ js ''?url='' @ enc) = Resolved r \<Longrightarrow> ok r \<Longrightarrow>
   json r = Resolved p \<Longrightarrow>
   completion (try_body env u) =
     (if code p \<noteq> 0 \<or> no_play p
      then Rejected (ErrorObject (or_else (msg p)
             (js ''Unable to fetch the video. Make sure the link is public.'')))
      else Resolved p)"
  by (simp add: try_body_def Let_def)

subsection \<open>The concrete inputs\<close>

lemmas js_eval = js_def unreserved_def isLead_def isTrail_def utf8_def percent_def hexDigit_def
  escape_def

lemma video_link_trim: "trim video_link = video_link"
  by (simp add: video_link_def trim_def isWhiteSpace_def js_def)

lemma video_link_encode: "encodeURIComponent video_link = Some video_link_encoded"
  by (simp add: video_link_def video_link_encoded_def js_eval)

lemma video_link_nonempty: "video_link \<noteq> []"
  by (simp add: video_link_def js_def)

lemma blank_spaces: "list_all isWhiteSpace (js ''   '')"
  by (simp add: js_def isWhiteSpace_def)

subsection \<open>Requests, first updates and last states\<close>

lemma handleDownload_requests:
  "trim (url s0) \<noteq> [] \<Longrightarrow>
   requests (handleDownload env s0) =
     map (\<lambda>t. \<lparr>http_method = ''GET'', target = t\<rparr>) (issued (try_body env (url s0)))"
  by (cases "completion (try_body env (url s0))")
    (simp_all add: handleDownload_pending handleDownload_rejected handleDownload_resolved
      requests_append requests_map_Fetch)

lemma handleDownload_start:
  "trim (url s0) \<noteq> [] \<Longrightarrow>
   take 3 (handleDownload env s0) =
     [Update Submission (s0\<lparr>status := Loading\<rparr>),
      Update Submission (s0\<lparr>status := Loading, error := None\<rparr>),
      Update Submission (s0\<lparr>status := Loading, error := None, videoData := None\<rparr>)]"
  by (cases "completion (try_body env (url s0))")
    (simp_all add: handleDownload_pending handleDownload_rejected handleDownload_resolved)

lemma final_rejected:
  "trim (url s0) \<noteq> [] \<Longrightarrow> completion (try_body env (url s0)) = Rejected e \<Longrightarrow>
   final s0 (handleDownload env s0) =
     s0\<lparr>status := Error, error := Some (displayMessage e), videoData := None\<rparr>"
  by (simp add: handleDownload_rejected final_def states_append states_map_Fetch)

lemma try_body_fetch_rejected:
  "encodeURIComponent (trim u) = Some enc \<Longrightarrow>
   fetch env (API_ENDPOINT @ js ''?url='' @ enc) = Rejected e \<Longrightarrow>
   completion (try_body env u) = Rejected e"
  by (simp add: try_body_def Let_def)

lemma try_body_not_ok:
  "encodeURIComponent (trim u) = Some enc \<Longrightarrow>
   fetch env (API_ENDPOINT @ js ''?url='' @ enc) = Resolved r \<Longrightarrow> \<not> ok r \<Longrightarrow>
   completion (try_body env u) =
     Rejected (ErrorObject (js ''Failed to contact the download service. Please try again.''))"
  by (simp add: try_body_def Let_def)

lemma try_body_json_rejected:
  "encodeURIComponent (trim u) = Some enc \<Longrightarrow>
   fetch env (API_ENDPOINT @ js ''?url='' @ enc) = Resolved r \<Longrightarrow> ok r \<Longrightarrow>
   json r = Rejected e \<Longrightarrow>
   completion (try_body env u) = Rejected e"
  by (simp add: try_body_def Let_def)

lemma video_link_request:
  "encodeURIComponent (trim (url (typed video_link))) = Some video_link_encoded"
  by (simp add: typed_def setUrl_def video_link_trim video_link_encode)

lemma video_link_nonblank: "trim (url (typed video_link)) \<noteq> []"
  by (simp add: typed_def setUrl_def video_link_trim video_link_nonempty)

lemma lone_surrogate_trim: "trim [0xD800] = [0xD800]"
  by (simp add: trim_def isWhiteSpace_def)

lemma lone_surrogate_nonblank: "trim (url (typed [0xD800])) \<noteq> []"
  by (simp add: typed_def setUrl_def lone_surrogate_trim)

lemma lone_surrogate_throws: "encodeURIComponent (trim (url (typed [0xD800]))) = None"
  by (simp add: typed_def setUrl_def lone_surrogate_trim js_eval)

lemma transitions_map_Fetch:
  "transitions st (map (\<lambda>t. Fetch (f t)) ts @ es) = transitions st es"
  by (induction ts) simp_all

subsection \<open>The invariants\<close>

lemma try_body_resolved:
  "completion (try_body env u) = Resolved p \<Longrightarrow> code p = 0 \<and> \<not> no_play p"
  by (auto simp add: try_body_def Let_def split: option.splits promise.splits if_splits)

lemma try_body_rejected_named:
  assumes "names_its_errors env" and "completion (try_body env u) = Rejected e"
  shows "displayMessage e \<noteq> []"
proof (cases "encodeURIComponent (trim u)")
  case None
  with assms show ?thesis
    by (auto simp add: try_body_def names_its_errors_def displayMessage_def)
next
  case (Some enc)
  from assms(1) have f: "case fetch env (API_ENDPOINT @ js ''?url='' @ enc) of
             Pending \<Rightarrow> True
           | Rejected e \<Rightarrow> e \<noteq> ErrorObject []
           | Resolved r \<Rightarrow> json r \<noteq> Rejected (ErrorObject [])"
    by (simp add: names_its_errors_def)
  from assms(2) Some f show ?thesis
    by (auto simp add: try_body_def Let_def displayMessage_def or_else_def js_Nil_iff
        split: promise.splits if_splits option.splits thrown.splits)
qed

lemma handleDownload_coherent:
  assumes "coherent s0" and "x \<in> set (states (handleDownload env s0))"
  shows "coherent x"
proof (cases "trim (url s0) = []")
  case True
  with assms show ?thesis
    by (auto simp add: handleDownload_blank coherent_def)
next
  case False
  show ?thesis
  proof (cases "completion (try_body env (url s0))")
    case Pending
    with False assms(2) show ?thesis
      by (auto simp add: handleDownload_pending states_append states_map_Fetch coherent_def)
  next
    case (Rejected e)
    with False assms(2) show ?thesis
      by (auto simp add: handleDownload_rejected states_append states_map_Fetch coherent_def)
  next
    case (Resolved p)
    from try_body_resolved [OF Resolved] have "\<not> no_play p" by simp
    with Resolved False assms(2) show ?thesis
      by (auto simp add: handleDownload_resolved states_append states_map_Fetch coherent_def
          no_play_def split: option.splits)
  qed
qed

lemma handleDownload_voiced:
  assumes "names_its_errors env" and "voiced s0" and "x \<in> set (states (handleDownload env s0))"
  shows "voiced x"
proof (cases "trim (url s0) = []")
  case True
  with assms show ?thesis
    by (auto simp add: handleDownload_blank voiced_def js_Nil_iff)
next
  case False
  show ?thesis
  proof (cases "completion (try_body env (url s0))")
    case Pending
    with False assms(3) show ?thesis
      by (auto simp add: handleDownload_pending states_append states_map_Fetch voiced_def)
  next
    case (Rejected e)
    from try_body_rejected_named [OF assms(1) Rejected] have "displayMessage e \<noteq> []" .
    with Rejected False assms(3) show ?thesis
      by (auto simp add: handleDownload_rejected states_append states_map_Fetch voiced_def)
  next
    case (Resolved p)
    with False assms(3) show ?thesis
      by (auto simp add: handleDownload_resolved states_append states_map_Fetch voiced_def)
  qed
qed

lemma ui_step_coherent:
  assumes "coherent s" and "x \<in> set (ui_step e s)"
  shows "coherent x"
proof (cases e)
  case (Change v)
  with assms show ?thesis
    by (auto simp add: setUrl_def coherent_def split: if_splits)
next
  case (Submit env)
  with assms(2) have "x \<in> set (states (handleDownload env s))"
    by (simp split: if_splits)
  with assms(1) show ?thesis by (rule handleDownload_coherent)
qed

lemma ui_step_voiced:
  assumes "polite e" and "voiced s" and "x \<in> set (ui_step e s)"
  shows "voiced x"
proof (cases e)
  case (Change v)
  with assms show ?thesis
    by (auto simp add: setUrl_def voiced_def split: if_splits)
next
  case (Submit env)
  with assms(3) have "x \<in> set (states (handleDownload env s))"
    by (simp split: if_splits)
  moreover from Submit assms(1) have "names_its_errors env" by simp
  ultimately show ?thesis using assms(2) by (blast intro: handleDownload_voiced)
qed

lemma visited_invariant:
  assumes step: "\<And>e s x. e \<in> set es \<Longrightarrow> P s \<Longrightarrow> x \<in> set (ui_step e s) \<Longrightarrow> P x"
  shows "P s \<Longrightarrow> x \<in> set (visited s es) \<Longrightarrow> P x"
  using step
proof (induction es arbitrary: s)
  case Nil
  then show ?case by simp
next
  case (Cons e es)
  have all: "P y" if "y \<in> set (s # ui_step e s)" for y
    using that Cons.prems(1) Cons.prems(3) [of e s y] by auto
  from Cons.prems(2) consider "x \<in> set (butlast (s # ui_step e s))"
    | "x \<in> set (visited (last (s # ui_step e s)) es)"
    by auto
  then show ?case
  proof cases
    case 1
    then have "x \<in> set (s # ui_step e s)" by (rule in_set_butlastD)
    then show ?thesis by (rule all)
  next
    case 2
    have "last (s # ui_step e s) \<in> set (s # ui_step e s)" by (rule last_in_set) simp
    then have "P (last (s # ui_step e s))" by (rule all)
    from Cons.IH [OF this 2] Cons.prems(3) show ?thesis by auto
  qed
qed

lemma visited_coherent: "x \<in> set (visited initial es) \<Longrightarrow> coherent x"
proof (rule visited_invariant [where P = coherent and s = initial and es = es])
  show "coherent initial" by (simp add: coherent_def initial_def)
qed (auto intro: ui_step_coherent)

lemma visited_voiced:
  assumes "list_all polite es" and "x \<in> set (visited initial es)"
  shows "voiced x"
proof (rule visited_invariant [where P = voiced and s = initial and es = es])
  show "voiced initial" by (simp add: voiced_def initial_def)
  show "x \<in> set (visited initial es)" by (rule assms(2))
  fix e s y
  assume "e \<in> set es" "voiced s" "y \<in> set (ui_step e s)"
  moreover from \<open>e \<in> set es\<close> assms(1) have "polite e" by (simp add: list_all_iff)
  ultimately show "voiced y" by (blast intro: ui_step_voiced)
qed

lemma final_resolved:
  "trim (url s0) \<noteq> [] \<Longrightarrow> completion (try_body env (url s0)) = Resolved p \<Longrightarrow>
   final s0 (handleDownload env s0) = s0\<lparr>status := Success, error := None, videoData := data p\<rparr>"
  by (simp add: handleDownload_resolved final_def states_append states_map_Fetch)

lemma visited_type_submit:
  "final (typed v) (handleDownload env (typed v)) \<in> set (visited initial [Change v, Submit env])"
proof -
  have "\<not> isLoading initial" "\<not> isLoading (typed v)"
    by (simp_all add: isLoading_def initial_def typed_def setUrl_def)
  then have "visited initial [Change v, Submit env] =
      initial # typed v # states (handleDownload env (typed v))"
    by (simp add: typed_def)
  then show ?thesis by (simp add: final_def)
qed

lemma answering_polite: "names_its_errors (answering p)"
  by (simp add: names_its_errors_def answering_def platform_with_def js_Nil_iff)

lemma caught:
  assumes "trim (url s0) \<noteq> []"
    and "completion (try_body env (url s0)) = Rejected e"
    and "displayMessage e = m"
  shows "ends_in_error (final s0 (handleDownload env s0)) m"
  using final_rejected [OF assms(1) assms(2)] assms(3)
  by (simp add: ends_in_error_def isLoading_def)

section \<open>The properties of the specification\<close>

text \<open>
  C1. When the request was issued, the response is OK, and its JSON body has \<open>code = 0\<close>
  and a \<open>data\<close> with a non-empty \<open>play\<close>, the submission ends in the success state,
  the stored record is the response's \<open>data\<close> itself, and the panel shows its
  \<open>play\<close>, \<open>title\<close>, \<open>author.nickname\<close> and \<open>cover\<close> unchanged.
\<close>

theorem C1_success_record:
  assumes "trim (url s0) \<noteq> []"
    and "encodeURIComponent (trim (url s0)) = Some enc"
    and "fetch env (API_ENDPOINT @ js ''?url='' @ enc) = Resolved r"
    and "ok r"
    and "json r = Resolved p"
    and "code p = 0"
    and "data p = Some d"
    and "play d \<noteq> []"
  shows "final s0 (handleDownload env s0) = s0\<lparr>status := Success, error := None, videoData := Some d\<rparr>
    \<and> resultPanel (final s0 (handleDownload env s0)) =
        Some \<lparr>coverImageUrl = cover d, heading = title d,
              authorHandle = nickname (author d), playUrl = play d\<rparr>"
proof -
  have "completion (try_body env (url s0)) = Resolved p"
    using assms by (simp add: try_body_payload no_play_def)
  from handleDownload_resolved [OF assms(1) this]
  have "final s0 (handleDownload env s0) = s0\<lparr>status := Success, error := None, videoData := Some d\<rparr>"
    using assms(7) by (simp add: final_def states_append states_map_Fetch)
  then show ?thesis by (simp add: resultPanel_def)
qed

theorem C1_witness:
  "final (typed video_link) (handleDownload (answering found) (typed video_link)) =
     \<lparr>url = video_link, status = Success, error = None, videoData = Some found_data\<rparr>
   \<and> resultPanel (final (typed video_link) (handleDownload (answering found) (typed video_link))) =
       Some \<lparr>coverImageUrl = js ''https://cdn/c.jpg'', heading = js ''T'',
             authorHandle = js ''user'', playUrl = js ''https://cdn/x.mp4''\<rparr>"
proof -
  have u: "url (typed video_link) = video_link"
    by (simp add: typed_def setUrl_def)
  have h1: "trim (url (typed video_link)) \<noteq> []"
    by (simp add: u video_link_trim video_link_nonempty)
  have h2: "encodeURIComponent (trim (url (typed video_link))) = Some video_link_encoded"
    by (simp add: u video_link_trim video_link_encode)
  have h3: "fetch (answering found) (API_ENDPOINT @ js ''?url='' @ video_link_encoded) =
      Resolved \<lparr>ok = True, json = Resolved found\<rparr>"
    by (simp add: answering_def platform_with_def)
  have h4: "ok \<lparr>ok = True, json = Resolved found\<rparr>" by simp
  have h5: "json \<lparr>ok = True, json = Resolved found\<rparr> = Resolved found" by simp
  have h6: "code found = 0" by (simp add: found_def)
  have h7: "data found = Some found_data" by (simp add: found_def)
  have h8: "play found_data \<noteq> []" by (simp add: found_data_def js_def)
  from C1_success_record [OF h1 h2 h3 h4 h5 h6 h7 h8]
  show ?thesis by (simp add: typed_def setUrl_def initial_def found_data_def resultPanel_def)
qed

text \<open>
  C2. For an input that is empty or only whitespace, the handler ends in the
  error state with the message "Please paste a TikTok link.", which the banner shows, and
  it never calls \<^verbatim>\<open>fetch\<close>.
\<close>

theorem C2_blank_input:
  assumes "list_all isWhiteSpace (url s0)"
  shows "status (final s0 (handleDownload env s0)) = Error
    \<and> error (final s0 (handleDownload env s0)) = Some (js ''Please paste a TikTok link.'')
    \<and> errorBanner (final s0 (handleDownload env s0)) = Some (js ''Please paste a TikTok link.'')
    \<and> requests (handleDownload env s0) = []"
proof -
  have "trim (url s0) = []" using assms by (simp add: trim_empty_iff)
  then show ?thesis
    by (simp add: handleDownload_blank final_def errorBanner_def js_Nil_iff)
qed

theorem C2_witness:
  "list_all isWhiteSpace (js ''   '')
   \<and> status (final (typed (js ''   '')) (handleDownload (answering found) (typed (js ''   '')))) = Error
   \<and> error (final (typed (js ''   '')) (handleDownload (answering found) (typed (js ''   ''))))
       = Some (js ''Please paste a TikTok link.'')
   \<and> requests (handleDownload (answering found) (typed (js ''   ''))) = []"
proof -
  have h: "list_all isWhiteSpace (url (typed (js ''   '')))"
    by (simp add: typed_def setUrl_def blank_spaces)
  from C2_blank_input [OF h, of "answering found"] show ?thesis
    by (simp add: blank_spaces)
qed

theorem C2_counterexample:
  "url initial = []
   \<and> error (final initial (handleDownload (answering found) initial))
       = Some (js ''Please paste a TikTok link.'')
   \<and> error (final initial (handleDownload (answering found) initial))
       \<noteq> Some (js ''Please paste a link.'')"
proof -
  have "trim (url initial) = []" by (simp add: initial_def trim_def)
  then show ?thesis
    by (simp add: handleDownload_blank final_def js_eq_iff) (simp add: initial_def)
qed

text \<open>
  C3. When the request gets a response whose status is not OK, the handler ends
  in the error state with the message "Failed to contact the download service. Please try
  again.". When \<^verbatim>\<open>fetch\<close> rejects, it ends in the error state too, and the message is
  the one the rejection carries, or "Unexpected error. Please try again later." when the
  rejection is not an \<^verbatim>\<open>Error\<close>.
\<close>

theorem C3_transport_failure:
  assumes "trim (url s0) \<noteq> []"
    and "encodeURIComponent (trim (url s0)) = Some enc"
  shows "(\<forall>r. fetch env (API_ENDPOINT @ js ''?url='' @ enc) = Resolved r \<and> \<not> ok r \<longrightarrow>
            ends_in_error (final s0 (handleDownload env s0))
              (js ''Failed to contact the download service. Please try again.''))
    \<and> (\<forall>m. fetch env (API_ENDPOINT @ js ''?url='' @ enc) = Rejected (ErrorObject m) \<longrightarrow>
            ends_in_error (final s0 (handleDownload env s0)) m)
    \<and> (fetch env (API_ENDPOINT @ js ''?url='' @ enc) = Rejected OtherValue \<longrightarrow>
            ends_in_error (final s0 (handleDownload env s0))
              (js ''Unexpected error. Please try again later.''))"
proof (intro conjI allI impI)
  fix r
  assume "fetch env (API_ENDPOINT @ js ''?url='' @ enc) = Resolved r \<and> \<not> ok r"
  then have "completion (try_body env (url s0)) =
      Rejected (ErrorObject (js ''Failed to contact the download service. Please try again.''))"
    using assms(2) by (simp add: try_body_not_ok)
  from final_rejected [OF assms(1) this]
  show "ends_in_error (final s0 (handleDownload env s0))
      (js ''Failed to contact the download service. Please try again.'')"
    by (simp add: ends_in_error_def displayMessage_def isLoading_def)
next
  fix m
  assume "fetch env (API_ENDPOINT @ js ''?url='' @ enc) = Rejected (ErrorObject m)"
  then have "completion (try_body env (url s0)) = Rejected (ErrorObject m)"
    using assms(2) by (simp add: try_body_fetch_rejected)
  from final_rejected [OF assms(1) this]
  show "ends_in_error (final s0 (handleDownload env s0)) m"
    by (simp add: ends_in_error_def displayMessage_def isLoading_def)
next
  assume "fetch env (API_ENDPOINT @ js ''?url='' @ enc) = Rejected OtherValue"
  then have "completion (try_body env (url s0)) = Rejected OtherValue"
    using assms(2) by (simp add: try_body_fetch_rejected)
  from final_rejected [OF assms(1) this]
  show "ends_in_error (final s0 (handleDownload env s0))
      (js ''Unexpected error. Please try again later.'')"
    by (simp add: ends_in_error_def displayMessage_def isLoading_def)
qed

theorem C3_witness:
  "ends_in_error
     (final (typed video_link) (handleDownload (platform_with (Resolved bad_gateway)) (typed video_link)))
     (js ''Failed to contact the download service. Please try again.'')
   \<and> ends_in_error
     (final (typed video_link)
        (handleDownload (platform_with (Rejected failed_to_fetch)) (typed video_link)))
     (js ''Failed to fetch'')
   \<and> ends_in_error
     (final (typed video_link) (handleDownload (platform_with (Rejected OtherValue)) (typed video_link)))
     (js ''Unexpected error. Please try again later.'')"
proof -
  note t = C3_transport_failure [OF video_link_nonblank video_link_request]
  have a: "fetch (platform_with (Resolved bad_gateway)) (API_ENDPOINT @ js ''?url='' @ video_link_encoded)
      = Resolved bad_gateway \<and> \<not> ok bad_gateway"
    by (simp add: platform_with_def bad_gateway_def)
  have b: "fetch (platform_with (Rejected failed_to_fetch)) (API_ENDPOINT @ js ''?url='' @ video_link_encoded)
      = Rejected (ErrorObject (js ''Failed to fetch''))"
    by (simp add: platform_with_def failed_to_fetch_def)
  have c: "fetch (platform_with (Rejected OtherValue)) (API_ENDPOINT @ js ''?url='' @ video_link_encoded)
      = Rejected OtherValue"
    by (simp add: platform_with_def)
  from t [of "platform_with (Resolved bad_gateway)"] a
  have 1: "ends_in_error
     (final (typed video_link) (handleDownload (platform_with (Resolved bad_gateway)) (typed video_link)))
     (js ''Failed to contact the download service. Please try again.'')"
    by blast
  from t [of "platform_with (Rejected failed_to_fetch)"] b
  have 2: "ends_in_error
     (final (typed video_link)
        (handleDownload (platform_with (Rejected failed_to_fetch)) (typed video_link)))
     (js ''Failed to fetch'')"
    by blast
  from t [of "platform_with (Rejected OtherValue)"] c
  have 3: "ends_in_error
     (final (typed video_link) (handleDownload (platform_with (Rejected OtherValue)) (typed video_link)))
     (js ''Unexpected error. Please try again later.'')"
    by blast
  from 1 2 3 show ?thesis by simp
qed

theorem C3_counterexample:
  "fetch (platform_with (Rejected failed_to_fetch))
      (API_ENDPOINT @ js ''?url='' @ video_link_encoded) = Rejected failed_to_fetch
   \<and> status (final (typed video_link)
        (handleDownload (platform_with (Rejected failed_to_fetch)) (typed video_link))) = Error
   \<and> error (final (typed video_link)
        (handleDownload (platform_with (Rejected failed_to_fetch)) (typed video_link)))
       = Some (js ''Failed to fetch'')
   \<and> js ''Failed to fetch'' \<noteq> js ''Failed to contact the download service. Please try again.''"
proof -
  have "completion (try_body (platform_with (Rejected failed_to_fetch)) (url (typed video_link)))
      = Rejected failed_to_fetch"
    by (rule try_body_fetch_rejected [OF video_link_request]) (simp add: platform_with_def)
  from final_rejected [OF video_link_nonblank this]
  show ?thesis
    by (simp add: displayMessage_def failed_to_fetch_def platform_with_def js_eq_iff)
qed

text \<open>
  C4. When the request was issued, the response is OK and its JSON body has a \<open>code\<close>
  other than 0, the handler ends in the error state; the message, which the banner shows,
  is the body's \<open>msg\<close>, or "Unable to fetch the video. Make sure the link is public." when
  \<open>msg\<close> is empty or absent.
\<close>

theorem C4_api_failure:
  assumes "trim (url s0) \<noteq> []"
    and "encodeURIComponent (trim (url s0)) = Some enc"
    and "fetch env (API_ENDPOINT @ js ''?url='' @ enc) = Resolved r"
    and "ok r"
    and "json r = Resolved p"
    and "code p \<noteq> 0"
  shows "status (final s0 (handleDownload env s0)) = Error
    \<and> error (final s0 (handleDownload env s0)) =
        Some (case msg p of
                None \<Rightarrow> js ''Unable to fetch the video. Make sure the link is public.''
              | Some m \<Rightarrow>
                  if m = [] then js ''Unable to fetch the video. Make sure the link is public.''
                  else m)
    \<and> errorBanner (final s0 (handleDownload env s0)) = error (final s0 (handleDownload env s0))"
proof -
  have "completion (try_body env (url s0)) =
      Rejected (ErrorObject (or_else (msg p)
        (js ''Unable to fetch the video. Make sure the link is public.'')))"
    using assms by (simp add: try_body_payload)
  from final_rejected [OF assms(1) this]
  show ?thesis
    by (simp add: displayMessage_def or_else_def errorBanner_def js_Nil_iff split: option.split)
qed

theorem C4_witness:
  "code not_found \<noteq> 0
   \<and> status (final (typed video_link) (handleDownload (answering not_found) (typed video_link))) = Error
   \<and> error (final (typed video_link) (handleDownload (answering not_found) (typed video_link)))
       = Some (js ''Video not found'')
   \<and> errorBanner (final (typed video_link) (handleDownload (answering not_found) (typed video_link)))
       = Some (js ''Video not found'')"
proof -
  have h3: "fetch (answering not_found) (API_ENDPOINT @ js ''?url='' @ video_link_encoded) =
      Resolved \<lparr>ok = True, json = Resolved not_found\<rparr>"
    by (simp add: answering_def platform_with_def)
  have h4: "ok \<lparr>ok = True, json = Resolved not_found\<rparr>" by simp
  have h5: "json \<lparr>ok = True, json = Resolved not_found\<rparr> = Resolved not_found" by simp
  have h6: "code not_found \<noteq> 0" by (simp add: not_found_def)
  have m: "msg not_found = Some (js ''Video not found'')" by (simp add: not_found_def)
  from C4_api_failure [OF video_link_nonblank video_link_request h3 h4 h5 h6]
  show ?thesis by (simp add: h6 m js_Nil_iff)
qed

text \<open>
  C5. For an input that is not empty after trimming, the handler calls
  \<^verbatim>\<open>fetch\<close> exactly once, with a GET request for the endpoint followed by
  \<^verbatim>\<open>?url=\<close> and the percent-encoding of the trimmed input; when the trimmed input holds
  an unpaired surrogate, \<^verbatim>\<open>encodeURIComponent\<close> throws and no request is made.
\<close>

theorem C5_one_request:
  assumes "trim (url s0) \<noteq> []"
  shows "requests (handleDownload env s0) =
     (case encodeURIComponent (trim (url s0)) of
        None \<Rightarrow> []
      | Some enc \<Rightarrow> [\<lparr>http_method = ''GET'', target = API_ENDPOINT @ js ''?url='' @ enc\<rparr>])"
  using assms
  by (simp add: handleDownload_requests try_body_encoded try_body_unencodable split: option.split)

theorem C5_witness:
  "trim (url (typed video_link)) \<noteq> []
   \<and> requests (handleDownload (answering found) (typed video_link)) =
       [\<lparr>http_method = ''GET'',
         target = js ''https://www.tikwm.com/api/?url=https%3A%2F%2Fwww.tiktok.com%2F%40user%2Fvideo%2F1''\<rparr>]"
proof -
  have u: "url (typed video_link) = video_link" by (simp add: typed_def setUrl_def)
  have h: "trim (url (typed video_link)) \<noteq> []"
    by (simp add: u video_link_trim video_link_nonempty)
  have "requests (handleDownload (answering found) (typed video_link)) =
      [\<lparr>http_method = ''GET'', target = API_ENDPOINT @ js ''?url='' @ video_link_encoded\<rparr>]"
    using C5_one_request [OF h, of "answering found"]
    by (simp add: u video_link_trim video_link_encode)
  then show ?thesis using h
    by (simp add: API_ENDPOINT_def video_link_encoded_def js_def)
qed

theorem C5_counterexample:
  "trim (js '' a '') \<noteq> []
   \<and> encodeURIComponent (js '' a '') = Some (js ''%20a%20'')
   \<and> requests (handleDownload (answering found) (typed (js '' a ''))) =
       [\<lparr>http_method = ''GET'', target = API_ENDPOINT @ js ''?url='' @ js ''a''\<rparr>]
   \<and> js ''a'' \<noteq> js ''%20a%20''
   \<and> trim [0xD800] \<noteq> []
   \<and> requests (handleDownload (answering found) (typed [0xD800])) = []"
proof -
  have t: "trim (js '' a '') = js ''a''" by (simp add: trim_def isWhiteSpace_def js_def)
  have e: "encodeURIComponent (js ''a'') = Some (js ''a'')" by (simp add: js_eval)
  have r: "encodeURIComponent (js '' a '') = Some (js ''%20a%20'')" by (simp add: js_eval)
  have t2: "trim [0xD800] = [0xD800]" by (simp add: trim_def isWhiteSpace_def)
  have e2: "encodeURIComponent [0xD800] = None" by (simp add: js_eval)
  have p1: "encodeURIComponent (trim (js '' a '')) = Some (js ''a'')" by (simp add: t e)
  have a: "requests (handleDownload (answering found) (typed (js '' a ''))) =
       [\<lparr>http_method = ''GET'', target = API_ENDPOINT @ js ''?url='' @ js ''a''\<rparr>]"
    using try_body_encoded [OF p1, of "answering found"]
    by (simp add: handleDownload_requests typed_def setUrl_def t js_Nil_iff)
  have p2: "encodeURIComponent (trim [0xD800]) = None" by (simp add: t2 js_eval)
  have b: "requests (handleDownload (answering found) (typed [0xD800])) = []"
    using try_body_unencodable [OF p2, of "answering found"]
    by (simp add: handleDownload_requests typed_def setUrl_def t2)
  show ?thesis using a b r by (simp add: t t2 js_eq_iff js_Nil_iff)
qed

text \<open>
  C6. A submission is made from a state that is not loading. Every change of
  status during it is one of: the submission of a non-empty input takes the status it
  found to loading; the outcome of the network call takes loading to success or to error;
  the submission of an empty input takes the status it found straight to error; and when
  \<^verbatim>\<open>encodeURIComponent\<close> throws, the submission itself takes loading to error, with no
  request made.
\<close>

theorem C6_transitions:
  assumes "\<not> isLoading s0"
    and "(c, a, b) \<in> set (transitions (status s0) (handleDownload env s0))"
    and "a \<noteq> b"
  shows "(c = Submission \<and> a = status s0 \<and> a \<noteq> Loading \<and> b = Loading \<and> trim (url s0) \<noteq> [])
    \<or> (c = NetworkOutcome \<and> a = Loading \<and> (b = Success \<or> b = Error))
    \<or> (c = Submission \<and> a = status s0 \<and> a \<noteq> Loading \<and> b = Error \<and> trim (url s0) = [])
    \<or> (c = Submission \<and> a = Loading \<and> b = Error \<and> trim (url s0) \<noteq> []
         \<and> encodeURIComponent (trim (url s0)) = None)"
proof (cases "trim (url s0) = []")
  case True
  with assms show ?thesis
    by (auto simp add: handleDownload_blank isLoading_def)
next
  case False
  show ?thesis
  proof (cases "encodeURIComponent (trim (url s0))")
    case None
    from try_body_unencodable [OF None, of env] False assms show ?thesis
      by (auto simp add: handleDownload_rejected isLoading_def None)
  next
    case (Some enc)
    have w: "awaited (try_body env (url s0))"
      using try_body_encoded [OF Some, of env] by simp
    show ?thesis
    proof (cases "completion (try_body env (url s0))")
      case Pending
      with False assms w show ?thesis
        by (auto simp add: handleDownload_pending transitions_map_Fetch [where es = "[]", simplified])
    next
      case (Rejected e)
      with False assms w show ?thesis
        by (auto simp add: handleDownload_rejected transitions_map_Fetch)
    next
      case (Resolved p)
      with False assms w show ?thesis
        by (auto simp add: handleDownload_resolved transitions_map_Fetch)
    qed
  qed
qed

theorem C6_witness:
  "\<not> isLoading (typed video_link)
   \<and> transitions (status (typed video_link)) (handleDownload (answering found) (typed video_link)) =
       [(Submission, Idle, Loading), (Submission, Loading, Loading), (Submission, Loading, Loading),
        (NetworkOutcome, Loading, Loading), (NetworkOutcome, Loading, Success)]
   \<and> trim (url (typed video_link)) \<noteq> []"
proof -
  have n: "\<not> isLoading (typed video_link)"
    by (simp add: isLoading_def typed_def setUrl_def initial_def)
  have i: "status (typed video_link) = Idle"
    by (simp add: typed_def setUrl_def initial_def)
  have "completion (try_body (answering found) (url (typed video_link))) = Resolved found"
    using try_body_payload [OF video_link_request,
        of "answering found" "\<lparr>ok = True, json = Resolved found\<rparr>" found]
    by (simp add: answering_def platform_with_def found_def found_data_def no_play_def js_Nil_iff)
  from handleDownload_resolved [OF video_link_nonblank this]
    try_body_encoded [OF video_link_request, of "answering found"]
  have t: "transitions (status (typed video_link))
      (handleDownload (answering found) (typed video_link)) =
       [(Submission, Idle, Loading), (Submission, Loading, Loading), (Submission, Loading, Loading),
        (NetworkOutcome, Loading, Loading), (NetworkOutcome, Loading, Success)]"
    by (simp add: i)
  have m: "(Submission, Idle, Loading) \<in> set (transitions (status (typed video_link))
      (handleDownload (answering found) (typed video_link)))"
    by (simp add: t)
  from C6_transitions [OF n m] have "trim (url (typed video_link)) \<noteq> []"
    by (simp add: i)
  with n t show ?thesis by simp
qed

theorem C6_counterexample:
  "\<not> isLoading initial
   \<and> transitions (status initial) (handleDownload (answering found) initial) =
       [(Submission, Idle, Idle), (Submission, Idle, Error)]
   \<and> \<not> isLoading (typed [0xD800])
   \<and> transitions (status (typed [0xD800])) (handleDownload (answering found) (typed [0xD800])) =
       [(Submission, Idle, Loading), (Submission, Loading, Loading), (Submission, Loading, Loading),
        (Submission, Loading, Loading), (Submission, Loading, Error)]"
proof -
  have a: "trim (url initial) = []" by (simp add: initial_def trim_def)
  note n = lone_surrogate_nonblank and e = lone_surrogate_throws
  have i: "status (typed [0xD800]) = Idle" by (simp add: typed_def setUrl_def initial_def)
  from try_body_unencodable [OF e, of "answering found"]
  have "transitions (status (typed [0xD800])) (handleDownload (answering found) (typed [0xD800])) =
       [(Submission, Idle, Loading), (Submission, Loading, Loading), (Submission, Loading, Loading),
        (Submission, Loading, Loading), (Submission, Loading, Error)]"
    by (simp add: handleDownload_rejected [OF n] i)
  then show ?thesis
    by (simp add: handleDownload_blank [OF a] isLoading_def i) (simp add: initial_def)
qed

text \<open>
  C7. In every state the component passes through, exactly one of idle, loading,
  success and error is the status; in the error state an error message is stored; in the
  success state a media record with a non-empty \<open>play\<close> is stored. The stored message is
  non-empty when the platform's own errors carry non-empty messages: the handler hands the
  message of a caught \<^verbatim>\<open>Error\<close> on as it is.
\<close>

theorem C7_state_invariant:
  assumes "s \<in> set (visited initial evs)"
  shows "length (filter (\<lambda>st. status s = st) [Idle, Loading, Success, Error]) = 1
    \<and> (status s = Error \<longrightarrow> error s \<noteq> None)
    \<and> (status s = Error \<and> list_all polite evs \<longrightarrow> (\<exists>m. error s = Some m \<and> m \<noteq> []))
    \<and> (status s = Success \<longrightarrow> (\<exists>d. videoData s = Some d \<and> play d \<noteq> []))"
proof (intro conjI impI)
  show "length (filter (\<lambda>st. status s = st) [Idle, Loading, Success, Error]) = 1"
    by (cases "status s") simp_all
next
  assume "status s = Error"
  with visited_coherent [OF assms] show "error s \<noteq> None"
    by (simp add: coherent_def)
next
  assume "status s = Error \<and> list_all polite evs"
  with visited_voiced [OF _ assms] show "\<exists>m. error s = Some m \<and> m \<noteq> []"
    by (auto simp add: voiced_def split: option.splits)
next
  assume "status s = Success"
  with visited_coherent [OF assms] show "\<exists>d. videoData s = Some d \<and> play d \<noteq> []"
    by (auto simp add: coherent_def split: option.splits)
qed

theorem C7_witness:
  "final (typed video_link) (handleDownload (answering found) (typed video_link))
     \<in> set (visited initial [Change video_link, Submit (answering found)])
   \<and> status (final (typed video_link) (handleDownload (answering found) (typed video_link))) = Success
   \<and> (\<exists>d. videoData (final (typed video_link) (handleDownload (answering found) (typed video_link)))
            = Some d \<and> play d \<noteq> [])
   \<and> final (typed video_link) (handleDownload (answering not_found) (typed video_link))
     \<in> set (visited initial [Change video_link, Submit (answering not_found)])
   \<and> list_all polite [Change video_link, Submit (answering not_found)]
   \<and> status (final (typed video_link) (handleDownload (answering not_found) (typed video_link))) = Error
   \<and> (\<exists>m. error (final (typed video_link) (handleDownload (answering not_found) (typed video_link)))
            = Some m \<and> m \<noteq> [])"
proof -
  let ?S = "final (typed video_link) (handleDownload (answering found) (typed video_link))"
  let ?E = "final (typed video_link) (handleDownload (answering not_found) (typed video_link))"
  have "completion (try_body (answering found) (url (typed video_link))) = Resolved found"
    using try_body_payload [OF video_link_request,
        of "answering found" "\<lparr>ok = True, json = Resolved found\<rparr>" found]
    by (simp add: answering_def platform_with_def found_def found_data_def no_play_def js_Nil_iff)
  from final_resolved [OF video_link_nonblank this] have s: "status ?S = Success" by simp
  have "completion (try_body (answering not_found) (url (typed video_link)))
      = Rejected (ErrorObject (js ''Video not found''))"
    using try_body_payload [OF video_link_request,
        of "answering not_found" "\<lparr>ok = True, json = Resolved not_found\<rparr>" not_found]
    by (simp add: answering_def platform_with_def not_found_def or_else_def js_Nil_iff)
  from final_rejected [OF video_link_nonblank this] have e: "status ?E = Error" by simp
  have p: "list_all polite [Change video_link, Submit (answering not_found)]"
    by (simp add: answering_polite)
  from C7_state_invariant [OF visited_type_submit, of video_link "answering found"] s
  have 1: "\<exists>d. videoData ?S = Some d \<and> play d \<noteq> []" by simp
  from C7_state_invariant [OF visited_type_submit, of video_link "answering not_found"] e p
  have 2: "\<exists>m. error ?E = Some m \<and> m \<noteq> []" by simp
  from 1 2 s e p visited_type_submit [of video_link "answering found"]
    visited_type_submit [of video_link "answering not_found"]
  show ?thesis by simp
qed

theorem C7_counterexample:
  "final (typed video_link) (handleDownload nameless_rejection (typed video_link))
     \<in> set (visited initial [Change video_link, Submit nameless_rejection])
   \<and> final (typed video_link) (handleDownload nameless_rejection (typed video_link))
     = \<lparr>url = video_link, status = Error, error = Some [], videoData = None\<rparr>
   \<and> errorBanner (final (typed video_link) (handleDownload nameless_rejection (typed video_link)))
     = None"
proof -
  have "completion (try_body nameless_rejection (url (typed video_link)))
      = Rejected (ErrorObject [])"
    by (rule try_body_fetch_rejected [OF video_link_request])
      (simp add: nameless_rejection_def platform_with_def)
  from final_rejected [OF video_link_nonblank this]
  have "final (typed video_link) (handleDownload nameless_rejection (typed video_link))
     = \<lparr>url = video_link, status = Error, error = Some [], videoData = None\<rparr>"
    by (simp add: displayMessage_def typed_def setUrl_def initial_def)
  with visited_type_submit [of video_link nameless_rejection] show ?thesis
    by (simp add: errorBanner_def)
qed

text \<open>
  C8. For an input that is not empty after trimming, the handler first sets the status to
  loading, then clears the error message, then clears the media record; every call of
  \<^verbatim>\<open>fetch\<close> comes after these three updates.
\<close>

theorem C8_loading_clears:
  assumes "trim (url s0) \<noteq> []"
  shows "take 3 (handleDownload env s0) =
      [Update Submission (s0\<lparr>status := Loading\<rparr>),
       Update Submission (s0\<lparr>status := Loading, error := None\<rparr>),
       Update Submission (s0\<lparr>status := Loading, error := None, videoData := None\<rparr>)]
    \<and> requests (take 3 (handleDownload env s0)) = []
    \<and> requests (drop 3 (handleDownload env s0)) = requests (handleDownload env s0)"
proof -
  let ?log = "handleDownload env s0"
  have a: "take 3 ?log =
      [Update Submission (s0\<lparr>status := Loading\<rparr>),
       Update Submission (s0\<lparr>status := Loading, error := None\<rparr>),
       Update Submission (s0\<lparr>status := Loading, error := None, videoData := None\<rparr>)]"
    using assms by (rule handleDownload_start)
  then have b: "requests (take 3 ?log) = []" by simp
  have "requests ?log = requests (take 3 ?log @ drop 3 ?log)" by simp
  also have "\<dots> = requests (drop 3 ?log)" by (simp only: requests_append b append_Nil)
  finally show ?thesis using a b by simp
qed

theorem C8_witness:
  "trim (url stale) \<noteq> []
   \<and> take 3 (handleDownload (answering found) stale) =
      [Update Submission \<lparr>url = video_link, status = Loading,
         error = Some (js ''Please paste a TikTok link.''), videoData = Some found_data\<rparr>,
       Update Submission \<lparr>url = video_link, status = Loading, error = None,
         videoData = Some found_data\<rparr>,
       Update Submission \<lparr>url = video_link, status = Loading, error = None, videoData = None\<rparr>]"
proof -
  have h: "trim (url stale) \<noteq> []"
    by (simp add: stale_def video_link_trim video_link_nonempty)
  from C8_loading_clears [OF h, of "answering found"] show ?thesis
    by (simp add: h) (simp add: stale_def)
qed

text \<open>
  C9. Whatever goes wrong in a submission, the handler itself turns it into one message
  and ends in the error state with the form enabled. An empty input gives "Please paste a
  TikTok link.". For any other input: a \<^verbatim>\<open>URIError\<close> of \<^verbatim>\<open>encodeURIComponent\<close> gives
  the engine's message; a rejected \<^verbatim>\<open>fetch\<close> or a rejected \<^verbatim>\<open>response.json()\<close> gives
  the message of the rejection's \<^verbatim>\<open>Error\<close>, or "Unexpected error. Please try again
  later." when the rejected value is not an \<^verbatim>\<open>Error\<close>; a response that is not OK gives
  "Failed to contact the download service. Please try again."; a body with a non-zero
  \<open>code\<close> or without a \<open>play\<close> gives its \<open>msg\<close>, or "Unable to fetch the video. Make sure
  the link is public." when \<open>msg\<close> is empty or absent.
\<close>

theorem C9_errors_caught:
  "(trim (url s0) = [] \<longrightarrow>
      ends_in_error (final s0 (handleDownload env s0)) (js ''Please paste a TikTok link.''))
   \<and> (trim (url s0) \<noteq> [] \<and> encodeURIComponent (trim (url s0)) = None \<longrightarrow>
      ends_in_error (final s0 (handleDownload env s0)) (uriErrorMessage env))
   \<and> (\<forall>enc. trim (url s0) \<noteq> [] \<and> encodeURIComponent (trim (url s0)) = Some enc \<longrightarrow>
        (\<forall>m. fetch env (API_ENDPOINT @ js ''?url='' @ enc) = Rejected (ErrorObject m) \<longrightarrow>
           ends_in_error (final s0 (handleDownload env s0)) m)
      \<and> (fetch env (API_ENDPOINT @ js ''?url='' @ enc) = Rejected OtherValue \<longrightarrow>
           ends_in_error (final s0 (handleDownload env s0))
             (js ''Unexpected error. Please try again later.''))
      \<and> (\<forall>r. fetch env (API_ENDPOINT @ js ''?url='' @ enc) = Resolved r \<and> \<not> ok r \<longrightarrow>
           ends_in_error (final s0 (handleDownload env s0))
             (js ''Failed to contact the download service. Please try again.''))
      \<and> (\<forall>r m. fetch env (API_ENDPOINT @ js ''?url='' @ enc) = Resolved r \<and> ok r
             \<and> json r = Rejected (ErrorObject m) \<longrightarrow>
           ends_in_error (final s0 (handleDownload env s0)) m)
      \<and> (\<forall>r. fetch env (API_ENDPOINT @ js ''?url='' @ enc) = Resolved r \<and> ok r
             \<and> json r = Rejected OtherValue \<longrightarrow>
           ends_in_error (final s0 (handleDownload env s0))
             (js ''Unexpected error. Please try again later.''))
      \<and> (\<forall>r p. fetch env (API_ENDPOINT @ js ''?url='' @ enc) = Resolved r \<and> ok r
             \<and> json r = Resolved p
             \<and> (code p \<noteq> 0 \<or> data p = None \<or> (\<exists>d. data p = Some d \<and> play d = []))
             \<longrightarrow>
           ends_in_error (final s0 (handleDownload env s0))
             (case msg p of
                None \<Rightarrow> js ''Unable to fetch the video. Make sure the link is public.''
              | Some m \<Rightarrow>
                  if m = [] then js ''Unable to fetch the video. Make sure the link is public.''
                  else m)))"
proof (intro conjI allI impI; (elim conjE)?)
  assume "trim (url s0) = []"
  then show "ends_in_error (final s0 (handleDownload env s0)) (js ''Please paste a TikTok link.'')"
    by (simp add: handleDownload_blank final_def ends_in_error_def isLoading_def)
next
  assume n: "trim (url s0) \<noteq> []" and u: "encodeURIComponent (trim (url s0)) = None"
  from try_body_unencodable [OF u, of env]
  have "completion (try_body env (url s0)) = Rejected (ErrorObject (uriErrorMessage env))"
    by simp
  from n this show "ends_in_error (final s0 (handleDownload env s0)) (uriErrorMessage env)"
    by (rule caught) (simp add: displayMessage_def)
next
  fix enc m
  assume n: "trim (url s0) \<noteq> []" and u: "encodeURIComponent (trim (url s0)) = Some enc"
    and f: "fetch env (API_ENDPOINT @ js ''?url='' @ enc) = Rejected (ErrorObject m)"
  from n try_body_fetch_rejected [OF u f]
  show "ends_in_error (final s0 (handleDownload env s0)) m"
    by (rule caught) (simp add: displayMessage_def)
next
  fix enc
  assume n: "trim (url s0) \<noteq> []" and u: "encodeURIComponent (trim (url s0)) = Some enc"
    and f: "fetch env (API_ENDPOINT @ js ''?url='' @ enc) = Rejected OtherValue"
  from n try_body_fetch_rejected [OF u f]
  show "ends_in_error (final s0 (handleDownload env s0))
      (js ''Unexpected error. Please try again later.'')"
    by (rule caught) (simp add: displayMessage_def)
next
  fix enc r
  assume n: "trim (url s0) \<noteq> []" and u: "encodeURIComponent (trim (url s0)) = Some enc"
    and f: "fetch env (API_ENDPOINT @ js ''?url='' @ enc) = Resolved r" and k: "\<not> ok r"
  from n try_body_not_ok [OF u f k]
  show "ends_in_error (final s0 (handleDownload env s0))
      (js ''Failed to contact the download service. Please try again.'')"
    by (rule caught) (simp add: displayMessage_def)
next
  fix enc r m
  assume n: "trim (url s0) \<noteq> []" and u: "encodeURIComponent (trim (url s0)) = Some enc"
    and f: "fetch env (API_ENDPOINT @ js ''?url='' @ enc) = Resolved r" and k: "ok r"
    and j: "json r = Rejected (ErrorObject m)"
  from n try_body_json_rejected [OF u f k j]
  show "ends_in_error (final s0 (handleDownload env s0)) m"
    by (rule caught) (simp add: displayMessage_def)
next
  fix enc r
  assume n: "trim (url s0) \<noteq> []" and u: "encodeURIComponent (trim (url s0)) = Some enc"
    and f: "fetch env (API_ENDPOINT @ js ''?url='' @ enc) = Resolved r" and k: "ok r"
    and j: "json r = Rejected OtherValue"
  from n try_body_json_rejected [OF u f k j]
  show "ends_in_error (final s0 (handleDownload env s0))
      (js ''Unexpected error. Please try again later.'')"
    by (rule caught) (simp add: displayMessage_def)
next
  fix enc r p
  assume n: "trim (url s0) \<noteq> []" and u: "encodeURIComponent (trim (url s0)) = Some enc"
    and f: "fetch env (API_ENDPOINT @ js ''?url='' @ enc) = Resolved r" and k: "ok r"
    and j: "json r = Resolved p"
    and b: "code p \<noteq> 0 \<or> data p = None \<or> (\<exists>d. data p = Some d \<and> play d = [])"
  from b have "code p \<noteq> 0 \<or> no_play p"
    by (auto simp add: no_play_def split: option.splits)
  with try_body_payload [OF u f k j]
  have "completion (try_body env (url s0)) =
      Rejected (ErrorObject (or_else (msg p)
        (js ''Unable to fetch the video. Make sure the link is public.'')))"
    by simp
  from n this
  show "ends_in_error (final s0 (handleDownload env s0))
      (case msg p of
         None \<Rightarrow> js ''Unable to fetch the video. Make sure the link is public.''
       | Some m \<Rightarrow>
           if m = [] then js ''Unable to fetch the video. Make sure the link is public.''
           else m)"
    by (rule caught) (simp add: displayMessage_def or_else_def)
qed

theorem C9_witness:
  "ends_in_error (final (typed (js ''   '')) (handleDownload (answering found) (typed (js ''   ''))))
     (js ''Please paste a TikTok link.'')
   \<and> ends_in_error (final (typed [0xD800]) (handleDownload (answering found) (typed [0xD800])))
     (js ''URI malformed'')
   \<and> ends_in_error
     (final (typed video_link)
        (handleDownload (platform_with (Rejected failed_to_fetch)) (typed video_link)))
     (js ''Failed to fetch'')
   \<and> ends_in_error
     (final (typed video_link) (handleDownload (platform_with (Rejected OtherValue)) (typed video_link)))
     (js ''Unexpected error. Please try again later.'')
   \<and> ends_in_error
     (final (typed video_link) (handleDownload (platform_with (Resolved bad_gateway)) (typed video_link)))
     (js ''Failed to contact the download service. Please try again.'')
   \<and> ends_in_error
     (final (typed video_link) (handleDownload (platform_with (Resolved unparsable)) (typed video_link)))
     (js ''Unexpected end of JSON input'')
   \<and> ends_in_error
     (final (typed video_link) (handleDownload (platform_with (Resolved unreadable)) (typed video_link)))
     (js ''Unexpected error. Please try again later.'')
   \<and> ends_in_error
     (final (typed video_link) (handleDownload (answering not_found) (typed video_link)))
     (js ''Video not found'')
   \<and> ends_in_error
     (final (typed video_link) (handleDownload (answering no_data) (typed video_link)))
     (js ''Unable to fetch the video. Make sure the link is public.'')"
proof -
  let ?t = "API_ENDPOINT @ js ''?url='' @ video_link_encoded"
  note n = video_link_nonblank and q = video_link_request
  have b: "trim (url (typed (js ''   ''))) = []"
    by (simp add: typed_def setUrl_def trim_empty_iff blank_spaces)
  from C9_errors_caught [of "typed (js ''   '')" "answering found"] b
  have 1: "ends_in_error
      (final (typed (js ''   '')) (handleDownload (answering found) (typed (js ''   ''))))
      (js ''Please paste a TikTok link.'')"
    by blast
  have "uriErrorMessage (answering found) = js ''URI malformed''"
    by (simp add: answering_def platform_with_def)
  with C9_errors_caught [of "typed [0xD800]" "answering found"]
    lone_surrogate_nonblank lone_surrogate_throws
  have 2: "ends_in_error (final (typed [0xD800]) (handleDownload (answering found) (typed [0xD800])))
      (js ''URI malformed'')"
    by simp
  have "fetch (platform_with (Rejected failed_to_fetch)) ?t
      = Rejected (ErrorObject (js ''Failed to fetch''))"
    by (simp add: platform_with_def failed_to_fetch_def)
  with C9_errors_caught [of "typed video_link" "platform_with (Rejected failed_to_fetch)"] n q
  have 3: "ends_in_error
      (final (typed video_link)
         (handleDownload (platform_with (Rejected failed_to_fetch)) (typed video_link)))
      (js ''Failed to fetch'')"
    by blast
  have "fetch (platform_with (Rejected OtherValue)) ?t = Rejected OtherValue"
    by (simp add: platform_with_def)
  with C9_errors_caught [of "typed video_link" "platform_with (Rejected OtherValue)"] n q
  have 4: "ends_in_error
      (final (typed video_link) (handleDownload (platform_with (Rejected OtherValue)) (typed video_link)))
      (js ''Unexpected error. Please try again later.'')"
    by blast
  have "fetch (platform_with (Resolved bad_gateway)) ?t = Resolved bad_gateway \<and> \<not> ok bad_gateway"
    by (simp add: platform_with_def bad_gateway_def)
  with C9_errors_caught [of "typed video_link" "platform_with (Resolved bad_gateway)"] n q
  have 5: "ends_in_error
      (final (typed video_link) (handleDownload (platform_with (Resolved bad_gateway)) (typed video_link)))
      (js ''Failed to contact the download service. Please try again.'')"
    by blast
  have "fetch (platform_with (Resolved unparsable)) ?t = Resolved unparsable \<and> ok unparsable
      \<and> json unparsable = Rejected (ErrorObject (js ''Unexpected end of JSON input''))"
    by (simp add: platform_with_def unparsable_def)
  with C9_errors_caught [of "typed video_link" "platform_with (Resolved unparsable)"] n q
  have 6: "ends_in_error
      (final (typed video_link) (handleDownload (platform_with (Resolved unparsable)) (typed video_link)))
      (js ''Unexpected end of JSON input'')"
    by blast
  have "fetch (platform_with (Resolved unreadable)) ?t = Resolved unreadable \<and> ok unreadable
      \<and> json unreadable = Rejected OtherValue"
    by (simp add: platform_with_def unreadable_def)
  with C9_errors_caught [of "typed video_link" "platform_with (Resolved unreadable)"] n q
  have 7: "ends_in_error
      (final (typed video_link) (handleDownload (platform_with (Resolved unreadable)) (typed video_link)))
      (js ''Unexpected error. Please try again later.'')"
    by blast
  have f8: "fetch (answering not_found) ?t = Resolved \<lparr>ok = True, json = Resolved not_found\<rparr>
      \<and> ok \<lparr>ok = True, json = Resolved not_found\<rparr>
      \<and> json \<lparr>ok = True, json = Resolved not_found\<rparr> = Resolved not_found
      \<and> (code not_found \<noteq> 0 \<or> data not_found = None
           \<or> (\<exists>d. data not_found = Some d \<and> play d = []))"
    by (simp add: answering_def platform_with_def not_found_def)
  have "ends_in_error
      (final (typed video_link) (handleDownload (answering not_found) (typed video_link)))
      (case msg not_found of
         None \<Rightarrow> js ''Unable to fetch the video. Make sure the link is public.''
       | Some m \<Rightarrow>
           if m = [] then js ''Unable to fetch the video. Make sure the link is public.''
           else m)"
    using C9_errors_caught [of "typed video_link" "answering not_found"] n q f8 by blast
  then have 8: "ends_in_error
      (final (typed video_link) (handleDownload (answering not_found) (typed video_link)))
      (js ''Video not found'')"
    by (simp add: not_found_def js_Nil_iff)
  have f9: "fetch (answering no_data) ?t = Resolved \<lparr>ok = True, json = Resolved no_data\<rparr>
      \<and> ok \<lparr>ok = True, json = Resolved no_data\<rparr>
      \<and> json \<lparr>ok = True, json = Resolved no_data\<rparr> = Resolved no_data
      \<and> (code no_data \<noteq> 0 \<or> data no_data = None
           \<or> (\<exists>d. data no_data = Some d \<and> play d = []))"
    by (simp add: answering_def platform_with_def no_data_def)
  have "ends_in_error
      (final (typed video_link) (handleDownload (answering no_data) (typed video_link)))
      (case msg no_data of
         None \<Rightarrow> js ''Unable to fetch the video. Make sure the link is public.''
       | Some m \<Rightarrow>
           if m = [] then js ''Unable to fetch the video. Make sure the link is public.''
           else m)"
    using C9_errors_caught [of "typed video_link" "answering no_data"] n q f9 by blast
  then have 9: "ends_in_error
      (final (typed video_link) (handleDownload (answering no_data) (typed video_link)))
      (js ''Unable to fetch the video. Make sure the link is public.'')"
    by (simp add: no_data_def)
  from 1 2 3 4 5 6 7 8 9 show ?thesis by simp
qed

text \<open>
  C10. On the validation path the handler makes two updates, the error message and then
  the status; the stored media record and the text of the input stay as they were.
\<close>

theorem C10_blank_frame:
  assumes "list_all isWhiteSpace (url s0)"
  shows "states (handleDownload env s0) =
      [s0\<lparr>error := Some (js ''Please paste a TikTok link.'')\<rparr>,
       s0\<lparr>error := Some (js ''Please paste a TikTok link.''), status := Error\<rparr>]
    \<and> videoData (final s0 (handleDownload env s0)) = videoData s0
    \<and> url (final s0 (handleDownload env s0)) = url s0"
proof -
  have "trim (url s0) = []" using assms by (simp add: trim_empty_iff)
  then show ?thesis by (simp add: handleDownload_blank final_def)
qed

theorem C10_witness:
  "list_all isWhiteSpace (url shown)
   \<and> final shown (handleDownload (answering not_found) shown) =
       \<lparr>url = js ''   '', status = Error, error = Some (js ''Please paste a TikTok link.''),
        videoData = Some found_data\<rparr>"
proof -
  have h: "list_all isWhiteSpace (url shown)" by (simp add: shown_def blank_spaces)
  from C10_blank_frame [OF h, of "answering not_found"] show ?thesis
    by (simp add: h final_def) (simp add: shown_def)
qed

end
